theory Spec2Isabelle
  imports Complex_Main "HOL-Library.Multiset"
begin

section \<open>Circuits as the simulation sees them\<close>

text \<open>
  The three scripts build circuits with an external circuit library and, in
  \<^verbatim>\<open>QDS.py\<close>, simulate them by hand. The only fields of a circuit that
  \<^verbatim>\<open>simulate_quantum_circuit\<close> reads are \<^verbatim>\<open>qc.data\<close> and, of each entry,
  \<^verbatim>\<open>inst.operation.name\<close>. A circuit is therefore a record of its declared sizes
  and its instruction list; an instruction carries the operation name and the qubit
  and classical-bit indices it was appended with.

  Amplitudes are NumPy numbers in the source (\<^verbatim>\<open>np.array([1, 0, 0, 0])\<close>,
  \<^verbatim>\<open>np.array([1, 1]) / np.sqrt(2)\<close>). They are modelled as mathematical reals and
  \<^verbatim>\<open>np.sqrt(2)\<close> as \<^term>\<open>sqrt 2\<close>: rounding is not modelled.
\<close>

record instruction =
  op_name :: string
  qubits :: "nat list"
  clbits :: "nat list"

record QuantumCircuit =
  num_qubits :: nat
  num_clbits :: nat
  data :: "instruction list"

text \<open>
  The calls of the circuit library that \<^verbatim>\<open>generate_signature\<close> makes:
  \<^verbatim>\<open>QuantumCircuit(n, m)\<close> is a circuit without instructions, and \<^verbatim>\<open>qc.x(q)\<close>,
  \<^verbatim>\<open>qc.h(q)\<close>, \<^verbatim>\<open>qc.cx(c, t)\<close>, \<^verbatim>\<open>qc.measure(q, b)\<close> append an instruction whose
  operation name is \<^verbatim>\<open>x\<close>, \<^verbatim>\<open>h\<close>, \<^verbatim>\<open>cx\<close>, \<^verbatim>\<open>measure\<close>.
\<close>

definition QuantumCircuit_init :: "nat \<Rightarrow> nat \<Rightarrow> QuantumCircuit" where
  "QuantumCircuit_init n m = \<lparr>num_qubits = n, num_clbits = m, data = []\<rparr>"

definition append_inst :: "QuantumCircuit \<Rightarrow> string \<Rightarrow> nat list \<Rightarrow> nat list \<Rightarrow> QuantumCircuit" where
  "append_inst qc nm qs cs =
     qc\<lparr>data := data qc @ [\<lparr>op_name = nm, qubits = qs, clbits = cs\<rparr>]\<rparr>"

definition qc_x :: "QuantumCircuit \<Rightarrow> nat \<Rightarrow> QuantumCircuit" where
  "qc_x qc q = append_inst qc ''x'' [q] []"

definition qc_h :: "QuantumCircuit \<Rightarrow> nat \<Rightarrow> QuantumCircuit" where
  "qc_h qc q = append_inst qc ''h'' [q] []"

definition qc_cx :: "QuantumCircuit \<Rightarrow> nat \<Rightarrow> nat \<Rightarrow> QuantumCircuit" where
  "qc_cx qc c t = append_inst qc ''cx'' [c, t] []"

definition qc_measure :: "QuantumCircuit \<Rightarrow> nat \<Rightarrow> nat \<Rightarrow> QuantumCircuit" where
  "qc_measure qc q b = append_inst qc ''measure'' [q] [b]"

text \<open>
  \<^verbatim>\<open>str.lower()\<close> on the ASCII letters; every other character is kept. (Python also
  lowers non-ASCII letters; operation names are ASCII.)
\<close>

definition lower_char :: "char \<Rightarrow> char" where
  "lower_char c =
     (case map_of (zip ''ABCDEFGHIJKLMNOPQRSTUVWXYZ'' ''abcdefghijklmnopqrstuvwxyz'') c of
        Some d \<Rightarrow> d
      | None \<Rightarrow> c)"

definition lower :: "string \<Rightarrow> string" where
  "lower s = map lower_char s"

text \<open>
  \<^verbatim>\<open>any(inst.operation.name.lower() == g for inst in qc.data)\<close>
\<close>

definition has_gate :: "string \<Rightarrow> QuantumCircuit \<Rightarrow> bool" where
  "has_gate g qc = list_ex (\<lambda>inst. lower (op_name inst) = g) (data qc)"

section \<open>The hand-written state-vector simulation (QDS.py)\<close>

text \<open>\<^verbatim>\<open>state = np.array([1, 0, 0, 0])\<close>\<close>

definition initial_state :: "real list" where
  "initial_state = [1, 0, 0, 0]"

text \<open>\<^verbatim>\<open>hadamard = np.array([1, 1]) / np.sqrt(2)\<close>\<close>

definition hadamard :: "real list" where
  "hadamard = [1 / sqrt 2, 1 / sqrt 2]"

text \<open>
  \<^verbatim>\<open>np.kron(a, b)\<close> on one-dimensional arrays: entry \<open>i * len(b) + j\<close> is
  \<open>a[i] * b[j]\<close>.
\<close>

definition kron :: "real list \<Rightarrow> real list \<Rightarrow> real list" where
  "kron a b = concat (map (\<lambda>x. map (\<lambda>y. x * y) b) a)"

text \<open>
  The three assignments to \<^verbatim>\<open>state\<close>, each as a function of the state it is
  executed on.
  \<^item> X: \<^verbatim>\<open>state = np.array([0, 1, 0, 0])\<close>
  \<^item> H: \<^verbatim>\<open>state = np.kron(state[:2], hadamard)\<close>
  \<^item> CX: \<^verbatim>\<open>if state[1] == 1: state[3] = state[2]; state[2] = 0\<close>
\<close>

definition apply_x :: "real list \<Rightarrow> real list" where
  "apply_x state = [0, 1, 0, 0]"

definition apply_h :: "real list \<Rightarrow> real list" where
  "apply_h state = kron (take 2 state) hadamard"

definition apply_cx :: "real list \<Rightarrow> real list" where
  "apply_cx state =
     (if state ! 1 = 1 then (state[3 := state ! 2])[2 := 0] else state)"

text \<open>
  \<^verbatim>\<open>simulate_quantum_circuit(qc)\<close>: the state after the X test, after the H test
  and after the CX test (the returned state). The tests run in this fixed order,
  each once, whatever the order and number of instructions in \<^verbatim>\<open>qc.data\<close>.
\<close>

definition state_after_x :: "QuantumCircuit \<Rightarrow> real list" where
  "state_after_x qc =
     (let state = initial_state
      in if has_gate ''x'' qc then apply_x state else state)"

definition state_after_h :: "QuantumCircuit \<Rightarrow> real list" where
  "state_after_h qc =
     (let state = state_after_x qc
      in if has_gate ''h'' qc then apply_h state else state)"

definition simulate_quantum_circuit :: "QuantumCircuit \<Rightarrow> real list" where
  "simulate_quantum_circuit qc =
     (let state = state_after_h qc
      in if has_gate ''cx'' qc then apply_cx state else state)"

section \<open>Signature generation and verification (QDS.py)\<close>

datatype error = ValueError

text \<open>
  \<^verbatim>\<open>generate_signature(message)\<close> raises \<^verbatim>\<open>ValueError\<close> unless the message is
  \<^verbatim>\<open>'0'\<close> or \<^verbatim>\<open>'1'\<close>; otherwise it builds the two-qubit circuit.
\<close>

definition generate_signature :: "string \<Rightarrow> error + QuantumCircuit" where
  "generate_signature message =
     (if message \<notin> set [''0'', ''1''] then Inl ValueError
      else
        let qc = QuantumCircuit_init 2 1;
            qc = (if message = ''1'' then qc_x qc 0 else qc);
            qc = qc_h qc 1;
            qc = qc_cx qc 0 1;
            qc = qc_measure qc 1 0
        in Inr qc)"

definition verify_signature :: "QuantumCircuit \<Rightarrow> string" where
  "verify_signature qc =
     (let state = simulate_quantum_circuit qc;
          signature = state ! 3
      in if signature = 1 then ''1'' else ''0'')"

section \<open>The operations as the specification words them\<close>

text \<open>
  The specification describes general gate operations on an amplitude vector of
  \<open>2\<^sup>n\<close> entries, indexed by the binary code of the basis state. The
  definitions of this section follow its wording, for comparison with the source's
  steps above; none of them is taken from the source.
\<close>


text \<open>Bit \<open>q\<close> of a basis-state index, and the index with bit \<open>q\<close> flipped.\<close>

definition index_bit :: "nat \<Rightarrow> nat \<Rightarrow> bool" where
  "index_bit i q = odd (i div 2 ^ q)"

definition flip_index_bit :: "nat \<Rightarrow> nat \<Rightarrow> nat" where
  "flip_index_bit i q = (if index_bit i q then i - 2 ^ q else i + 2 ^ q)"

text \<open>
  Hadamard(q): for every pair of basis states differing only in bit \<open>q\<close>, the new
  amplitude is \<open>(a0 + a1)/\<surd>2\<close> at the state with bit \<open>q = 0\<close> and
  \<open>(a0 - a1)/\<surd>2\<close> at the state with bit \<open>q = 1\<close>.
\<close>

definition spec_hadamard :: "nat \<Rightarrow> real list \<Rightarrow> real list" where
  "spec_hadamard q old =
     map (\<lambda>i. if index_bit i q
               then (old ! flip_index_bit i q - old ! i) / sqrt 2
               else (old ! i + old ! flip_index_bit i q) / sqrt 2)
         [0..<length old]"

text \<open>
  ControlledX(c, t): every basis state whose bit \<open>c\<close> is 1 exchanges its amplitude
  with the state obtained by flipping bit \<open>t\<close>; the others keep theirs.
\<close>

definition spec_controlled_x :: "nat \<Rightarrow> nat \<Rightarrow> real list \<Rightarrow> real list" where
  "spec_controlled_x c t old =
     map (\<lambda>i. if index_bit i c then old ! flip_index_bit i t else old ! i)
         [0..<length old]"

text \<open>
  initialize\_state(n): a vector of length \<open>2\<^sup>n\<close>, 1 at index 0 and 0 elsewhere;
  InvalidQubitCount for \<open>n \<le> 0\<close>.
\<close>

datatype spec_error = InvalidQubitCount | QubitIndexOutOfRange | DegenerateDistribution

definition spec_initialize_state :: "int \<Rightarrow> spec_error + real list" where
  "spec_initialize_state n =
     (if n \<le> 0 then Inl InvalidQubitCount
      else Inr (1 # replicate (2 ^ nat n - 1) 0))"

section \<open>Evaluation lemmas\<close>

lemmas circuit_defs =
  QuantumCircuit_init_def append_inst_def qc_x_def qc_h_def qc_cx_def qc_measure_def

lemmas gate_test_defs = has_gate_def lower_def lower_char_def

lemmas step_defs = apply_x_def apply_h_def apply_cx_def kron_def hadamard_def initial_state_def

lemmas sim_defs = simulate_quantum_circuit_def state_after_h_def state_after_x_def

lemma generate_signature_0:
  "generate_signature ''0'' =
     Inr \<lparr>num_qubits = 2, num_clbits = 1,
          data = [\<lparr>op_name = ''h'', qubits = [1], clbits = []\<rparr>,
                  \<lparr>op_name = ''cx'', qubits = [0, 1], clbits = []\<rparr>,
                  \<lparr>op_name = ''measure'', qubits = [1], clbits = [0]\<rparr>]\<rparr>"
  by (simp add: generate_signature_def circuit_defs)

lemma generate_signature_1:
  "generate_signature ''1'' =
     Inr \<lparr>num_qubits = 2, num_clbits = 1,
          data = [\<lparr>op_name = ''x'', qubits = [0], clbits = []\<rparr>,
                  \<lparr>op_name = ''h'', qubits = [1], clbits = []\<rparr>,
                  \<lparr>op_name = ''cx'', qubits = [0, 1], clbits = []\<rparr>,
                  \<lparr>op_name = ''measure'', qubits = [1], clbits = [0]\<rparr>]\<rparr>"
  by (simp add: generate_signature_def circuit_defs)

lemma simulate_signature_0:
  "generate_signature ''0'' = Inr qc \<Longrightarrow>
     simulate_quantum_circuit qc = [1 / sqrt 2, 1 / sqrt 2, 0, 0]"
  unfolding generate_signature_0
  by (auto simp add: sim_defs gate_test_defs step_defs)

lemma simulate_signature_1:
  "generate_signature ''1'' = Inr qc \<Longrightarrow>
     simulate_quantum_circuit qc = [0, 0, 1 / sqrt 2, 1 / sqrt 2]"
  unfolding generate_signature_1
  by (auto simp add: sim_defs gate_test_defs step_defs)

section \<open>Verification of a generated signature\<close>

text \<open>
  C4. For each valid message, \<^verbatim>\<open>'0'\<close> or \<^verbatim>\<open>'1'\<close>, \<^verbatim>\<open>generate_signature\<close>
  returns a circuit, and \<^verbatim>\<open>verify_signature\<close> on that circuit returns \<^verbatim>\<open>'0'\<close>:
  the amplitude \<^verbatim>\<open>state[3]\<close> that is compared with 1 is at most \<open>1/\<surd>2\<close>, so
  the comparison never succeeds.
\<close>

theorem verify_generated_signature_fails:
  assumes "message \<in> {''0'', ''1''}"
  shows "\<exists>qc. generate_signature message = Inr qc
            \<and> verify_signature qc = ''0''
            \<and> simulate_quantum_circuit qc ! 3 \<le> 1 / sqrt 2
            \<and> simulate_quantum_circuit qc ! 3 \<noteq> 1"
proof -
  from assms consider "message = ''0''" | "message = ''1''" by auto
  then show ?thesis
  proof cases
    case 1
    obtain qc where g: "generate_signature ''0'' = Inr qc"
      using generate_signature_0 by blast
    have "simulate_quantum_circuit qc = [1 / sqrt 2, 1 / sqrt 2, 0, 0]"
      using g by (rule simulate_signature_0)
    then show ?thesis
      using 1 g by (simp add: verify_signature_def)
  next
    case 2
    obtain qc where g: "generate_signature ''1'' = Inr qc"
      using generate_signature_1 by blast
    have "simulate_quantum_circuit qc = [0, 0, 1 / sqrt 2, 1 / sqrt 2]"
      using g by (rule simulate_signature_1)
    then show ?thesis
      using 2 g by (simp add: verify_signature_def)
  qed
qed

theorem verify_generated_signature_fails_witness:
  "''1'' \<in> {''0'', ''1''}
   \<and> (\<exists>qc. generate_signature ''1'' = Inr qc \<and> verify_signature qc = ''0''
            \<and> simulate_quantum_circuit qc ! 3 \<le> 1 / sqrt 2
            \<and> simulate_quantum_circuit qc ! 3 \<noteq> 1)"
  using verify_generated_signature_fails [of "''1''"] by simp

section \<open>Four-entry vectors and their norm\<close>

lemmas spec_defs = spec_hadamard_def spec_controlled_x_def index_bit_def flip_index_bit_def

lemma length_4_cases:
  assumes "length v = 4"
  obtains a b c d where "v = [a, b, c, d]"
  using assms by (auto simp: length_Suc_conv numeral_eq_Suc)

lemma apply_h_4: "apply_h [a, b, c, d] = [a / sqrt 2, a / sqrt 2, b / sqrt 2, b / sqrt 2]"
  by (simp add: step_defs)

lemma apply_cx_4: "apply_cx [a, b, c, d] = (if b = 1 then [a, b, 0, c] else [a, b, c, d])"
  by (simp add: step_defs)




lemma state_after_x_cases:
  "state_after_x qc = [1, 0, 0, 0] \<or> state_after_x qc = [0, 1, 0, 0]"
  by (simp add: state_after_x_def step_defs Let_def)

lemma state_after_h_cases:
  "state_after_h qc = [1, 0, 0, 0] \<or> state_after_h qc = [0, 1, 0, 0]
   \<or> state_after_h qc = [1 / sqrt 2, 1 / sqrt 2, 0, 0]
   \<or> state_after_h qc = [0, 0, 1 / sqrt 2, 1 / sqrt 2]"
  by (simp add: state_after_h_def state_after_x_def step_defs Let_def)






section \<open>Normalization\<close>


section \<open>The specification's operations on four-entry vectors\<close>

lemma spec_hadamard_0_4:
  "spec_hadamard 0 [a, b, c, d] =
     [(a + b) / sqrt 2, (a - b) / sqrt 2, (c + d) / sqrt 2, (c - d) / sqrt 2]"
  by (simp add: spec_defs)

lemma spec_controlled_x_0_1_4: "spec_controlled_x 0 (Suc 0) [a, b, c, d] = [a, d, c, b]"
  by (simp add: spec_defs)

section \<open>The Hadamard step\<close>

text \<open>
  C2 (as the code has it). The H step takes no qubit position. On every four-entry
  vector \<open>(s0, s1, s2, s3)\<close> it returns \<open>(s0/\<surd>2, s0/\<surd>2, s1/\<surd>2, s1/\<surd>2)\<close>.
  This is the pair formula of the specification at bit 0, \<open>(a0 + a1)/\<surd>2\<close> and
  \<open>(a0 - a1)/\<surd>2\<close>, exactly when \<open>s1 = s2 = s3 = 0\<close>, as in the initial state.
\<close>

theorem hadamard_step_shape:
  "length v = 4 \<longrightarrow>
     apply_h v = [v ! 0 / sqrt 2, v ! 0 / sqrt 2, v ! 1 / sqrt 2, v ! 1 / sqrt 2]
     \<and> (apply_h v = spec_hadamard 0 v \<longleftrightarrow> v ! 1 = 0 \<and> v ! 2 = 0 \<and> v ! 3 = 0)"
proof
  assume "length v = 4"
  then obtain a b c d where v: "v = [a, b, c, d]" by (rule length_4_cases)
  have "apply_h [a, b, c, d] = spec_hadamard 0 [a, b, c, d] \<longleftrightarrow> b = 0 \<and> c = 0 \<and> d = 0"
    by (auto simp add: apply_h_4 spec_hadamard_0_4)
  then show "apply_h v = [v ! 0 / sqrt 2, v ! 0 / sqrt 2, v ! 1 / sqrt 2, v ! 1 / sqrt 2]
     \<and> (apply_h v = spec_hadamard 0 v \<longleftrightarrow> v ! 1 = 0 \<and> v ! 2 = 0 \<and> v ! 3 = 0)"
    by (simp add: v apply_h_4)
qed

text \<open>The initial state is such a vector.\<close>

theorem hadamard_step_shape_witness:
  "length initial_state = 4
   \<and> apply_h initial_state = [1 / sqrt 2, 1 / sqrt 2, 0, 0]
   \<and> apply_h initial_state = spec_hadamard 0 initial_state"
  using hadamard_step_shape [of initial_state] by (simp add: initial_state_def spec_hadamard_0_4)

text \<open>
  C2 as stated fails: on \<open>[0, 1, 0, 0]\<close>, the state after the X step, the H step
  returns \<open>[0, 0, 1/\<surd>2, 1/\<surd>2]\<close>, which is the pair formula neither at bit 0
  nor at bit 1.
\<close>

theorem hadamard_pair_formula_counterexample:
  "apply_h [0, 1, 0, 0] = [0, 0, 1 / sqrt 2, 1 / sqrt 2]
   \<and> spec_hadamard 0 [0, 1, 0, 0] = [1 / sqrt 2, - (1 / sqrt 2), 0, 0]
   \<and> spec_hadamard 1 [0, 1, 0, 0] = [0, 1 / sqrt 2, 0, 1 / sqrt 2]
   \<and> apply_h [0, 1, 0, 0] \<noteq> spec_hadamard 0 [0, 1, 0, 0]
   \<and> apply_h [0, 1, 0, 0] \<noteq> spec_hadamard 1 [0, 1, 0, 0]"
  by (simp add: apply_h_4 spec_defs)

section \<open>The controlled-X step\<close>

text \<open>
  C3 (the code at the circuit X(0); CX(0, 1)). After the X step the state is
  \<open>[0, 1, 0, 0]\<close>: all amplitude is on index 1, whose bit 0, the control, is 1
  (the source: \<^verbatim>\<open>|1> on the first qubit\<close>). The guard \<^verbatim>\<open>state[1] == 1\<close> holds
  and the step runs \<^verbatim>\<open>state[3] = state[2]; state[2] = 0\<close>, which leaves
  \<open>[0, 1, 0, 0]\<close>. The swap of the claim, and the source's own comment (the gate
  \<^verbatim>\<open>flips the second qubit if the first qubit is |1>\<close>), give \<open>[0, 0, 0, 1]\<close>:
  the amplitude of index 1 exchanged with that of index 3.
\<close>

theorem cx_step_does_not_flip_target:
  "state_after_h (qc_cx (qc_x (QuantumCircuit_init 2 0) 0) 0 1) = [0, 1, 0, 0]
   \<and> index_bit 1 0
   \<and> flip_index_bit 1 1 = 3
   \<and> spec_controlled_x 0 1 [0, 1, 0, 0] = [0, 0, 0, 1]
   \<and> apply_cx [0, 1, 0, 0] = [0, 1, 0, 0]
   \<and> simulate_quantum_circuit (qc_cx (qc_x (QuantumCircuit_init 2 0) 0) 0 1) = [0, 1, 0, 0]
   \<and> simulate_quantum_circuit (qc_cx (qc_x (QuantumCircuit_init 2 0) 0) 0 1)
       \<noteq> spec_controlled_x 0 1 (state_after_h (qc_cx (qc_x (QuantumCircuit_init 2 0) 0) 0 1))"
proof -
  have h: "state_after_h (qc_cx (qc_x (QuantumCircuit_init 2 0) 0) 0 1) = [0, 1, 0, 0]"
    by (simp add: state_after_h_def state_after_x_def gate_test_defs circuit_defs step_defs)
  have c: "has_gate ''cx'' (qc_cx (qc_x (QuantumCircuit_init 2 0) 0) 0 1)"
    by (simp add: gate_test_defs circuit_defs)
  have a: "apply_cx [0, 1, 0, 0] = [0, 1, 0, 0]"
    by (simp add: apply_cx_4)
  have r: "simulate_quantum_circuit (qc_cx (qc_x (QuantumCircuit_init 2 0) 0) 0 1) = [0, 1, 0, 0]"
    by (simp only: simulate_quantum_circuit_def Let_def h c a if_True)
  have b: "index_bit 1 0" and f: "flip_index_bit 1 1 = 3"
    by (simp_all add: index_bit_def flip_index_bit_def)
  have sp: "spec_controlled_x 0 1 [0, 1, 0, 0] = [0, 0, 0, 1]"
    by (simp add: spec_controlled_x_0_1_4)
  have d: "simulate_quantum_circuit (qc_cx (qc_x (QuantumCircuit_init 2 0) 0) 0 1)
       \<noteq> spec_controlled_x 0 1 (state_after_h (qc_cx (qc_x (QuantumCircuit_init 2 0) 0) 0 1))"
    by (simp only: h r sp) simp
  show ?thesis
    by (intro conjI h b f sp a r d)
qed

section \<open>What the simulation reads of a circuit\<close>

text \<open>
  Each of the three tests asks only whether some instruction has the given lowered
  name, so the result is determined by the set of lowered operation names.
\<close>

lemma has_gate_names:
  assumes "set (map (\<lambda>inst. lower (op_name inst)) (data qc))
           = set (map (\<lambda>inst. lower (op_name inst)) (data qc'))"
  shows "has_gate g qc = has_gate g qc'"
proof -
  have "has_gate g c \<longleftrightarrow> g \<in> set (map (\<lambda>inst. lower (op_name inst)) (data c))" for c
    by (auto simp add: has_gate_def list_ex_iff)
  then show ?thesis using assms by simp
qed

lemma simulate_names:
  assumes "set (map (\<lambda>inst. lower (op_name inst)) (data qc))
           = set (map (\<lambda>inst. lower (op_name inst)) (data qc'))"
  shows "simulate_quantum_circuit qc = simulate_quantum_circuit qc'"
  by (simp add: sim_defs has_gate_names [OF assms])

lemma simulate_mset:
  assumes "mset (data qc) = mset (data qc')"
  shows "simulate_quantum_circuit qc = simulate_quantum_circuit qc'"
proof (rule simulate_names)
  have "set (data qc) = set (data qc')" using assms by (rule mset_eq_setD)
  then show "set (map (\<lambda>inst. lower (op_name inst)) (data qc))
           = set (map (\<lambda>inst. lower (op_name inst)) (data qc'))" by simp
qed

lemma simulate_op_names:
  assumes "map op_name (data qc) = map op_name (data qc')"
  shows "simulate_quantum_circuit qc = simulate_quantum_circuit qc'"
proof (rule simulate_names)
  have "map (\<lambda>inst. lower (op_name inst)) (data c) = map lower (map op_name (data c))" for c
    by simp
  then show "set (map (\<lambda>inst. lower (op_name inst)) (data qc))
           = set (map (\<lambda>inst. lower (op_name inst)) (data qc'))"
    using assms by metis
qed

lemma length_simulate: "length (simulate_quantum_circuit qc) = 4"
  by (simp add: sim_defs step_defs Let_def)

section \<open>The Pauli-X step\<close>

text \<open>
  C5 (as the code has it). The X step is constant: it returns \<open>[0, 1, 0, 0]\<close> on
  every vector. Applying it twice is the same as applying it once, and gives back the
  vector it started from only for \<open>[0, 1, 0, 0]\<close>. In the simulation a second
  \<^verbatim>\<open>x\<close> instruction changes nothing.
\<close>

theorem x_step_idempotent:
  "apply_x v = [0, 1, 0, 0]
   \<and> apply_x (apply_x v) = apply_x v
   \<and> (apply_x (apply_x v) = v \<longleftrightarrow> v = [0, 1, 0, 0])
   \<and> simulate_quantum_circuit (qc_x (qc_x qc q) q) = simulate_quantum_circuit (qc_x qc q)"
proof -
  have "simulate_quantum_circuit (qc_x (qc_x qc q) q) = simulate_quantum_circuit (qc_x qc q)"
    by (rule simulate_names) (simp add: circuit_defs)
  then show ?thesis by (auto simp add: apply_x_def)
qed

text \<open>
  C5 as stated fails: two X steps on the initial state \<open>[1, 0, 0, 0]\<close> give
  \<open>[0, 1, 0, 0]\<close>, and so does the simulation of a circuit with two \<^verbatim>\<open>x\<close>
  instructions, while the circuit without instructions gives \<open>[1, 0, 0, 0]\<close>.
\<close>

theorem x_twice_counterexample:
  "apply_x (apply_x initial_state) = [0, 1, 0, 0]
   \<and> apply_x (apply_x initial_state) \<noteq> initial_state
   \<and> simulate_quantum_circuit (qc_x (qc_x (QuantumCircuit_init 2 0) 0) 0) = [0, 1, 0, 0]
   \<and> simulate_quantum_circuit (QuantumCircuit_init 2 0) = [1, 0, 0, 0]"
  by (simp add: sim_defs gate_test_defs circuit_defs step_defs)

section \<open>Order of the instructions\<close>

text \<open>
  C6 (as the code has it). The simulation is insensitive to the order of the
  instructions: two circuits with the same set of lowered operation names give the
  same state. The steps themselves do not commute (H after X differs from X after H
  on the initial state); the simulation always runs them in the order X, H, CX.
\<close>

theorem simulation_order_insensitive:
  "(set (map (\<lambda>inst. lower (op_name inst)) (data qc))
      = set (map (\<lambda>inst. lower (op_name inst)) (data qc'))
    \<longrightarrow> simulate_quantum_circuit qc = simulate_quantum_circuit qc')
   \<and> apply_h (apply_x initial_state) \<noteq> apply_x (apply_h initial_state)"
proof (intro conjI impI)
  assume "set (map (\<lambda>inst. lower (op_name inst)) (data qc))
      = set (map (\<lambda>inst. lower (op_name inst)) (data qc'))"
  then show "simulate_quantum_circuit qc = simulate_quantum_circuit qc'"
    by (rule simulate_names)
next
  show "apply_h (apply_x initial_state) \<noteq> apply_x (apply_h initial_state)"
    by (simp add: step_defs)
qed

text \<open>A circuit with X then H, and the circuit with H then X.\<close>

theorem simulation_order_insensitive_witness:
  "set (map (\<lambda>inst. lower (op_name inst)) (data (qc_h (qc_x (QuantumCircuit_init 2 0) 0) 1)))
     = set (map (\<lambda>inst. lower (op_name inst)) (data (qc_x (qc_h (QuantumCircuit_init 2 0) 1) 0)))
   \<and> simulate_quantum_circuit (qc_h (qc_x (QuantumCircuit_init 2 0) 0) 1)
     = simulate_quantum_circuit (qc_x (qc_h (QuantumCircuit_init 2 0) 1) 0)"
proof -
  have s: "set (map (\<lambda>inst. lower (op_name inst)) (data (qc_h (qc_x (QuantumCircuit_init 2 0) 0) 1)))
     = set (map (\<lambda>inst. lower (op_name inst)) (data (qc_x (qc_h (QuantumCircuit_init 2 0) 1) 0)))"
    by (simp add: circuit_defs lower_def lower_char_def insert_commute)
  show ?thesis
    using s simulation_order_insensitive
      [of "qc_h (qc_x (QuantumCircuit_init 2 0) 0) 1" "qc_x (qc_h (QuantumCircuit_init 2 0) 1) 0"]
    by blast
qed

text \<open>
  C6 as stated fails: no two circuits whose instruction lists are permutations of
  each other are simulated to different states.
\<close>

theorem order_sensitivity_counterexample:
  "\<not> (\<exists>qc qc'. mset (data qc) = mset (data qc')
          \<and> simulate_quantum_circuit qc \<noteq> simulate_quantum_circuit qc')"
  using simulate_mset by blast

section \<open>The initial state\<close>

text \<open>
  C7 (as the code has it). The initial state is fixed for two qubits: it is the
  vector the specification describes for \<open>n = 2\<close>, of length \<open>2\<^sup>2\<close>, with 1 at
  index 0 and 0 at the indices 1, 2, 3. The simulation of a circuit without
  instructions returns it, whatever qubit count the circuit declares.
\<close>

theorem initial_state_two_qubits:
  "spec_initialize_state 2 = Inr initial_state
   \<and> length initial_state = 2 ^ 2
   \<and> initial_state ! 0 = 1
   \<and> (\<forall>i \<in> {1..<4}. initial_state ! i = 0)
   \<and> (data qc = [] \<longrightarrow> simulate_quantum_circuit qc = initial_state)"
proof -
  have "{1..<4::nat} = {1, 2, 3}" by auto
  then have zeros: "\<forall>i \<in> {1..<4}. initial_state ! i = 0"
    by (simp add: initial_state_def)
  have spec: "spec_initialize_state 2 = Inr initial_state"
    by (simp add: spec_initialize_state_def initial_state_def numeral_eq_Suc)
  have len: "length initial_state = 2 ^ 2" and first: "initial_state ! 0 = 1"
    by (simp_all add: initial_state_def)
  have empty: "data qc = [] \<longrightarrow> simulate_quantum_circuit qc = initial_state"
    by (simp add: sim_defs has_gate_def)
  show ?thesis
    by (intro conjI spec len first zeros empty)
qed

text \<open>Index 2, and the empty two-qubit circuit.\<close>

theorem initial_state_two_qubits_witness:
  "(2::nat) \<in> {1..<4} \<and> initial_state ! 2 = 0
   \<and> data (QuantumCircuit_init 2 1) = []
   \<and> simulate_quantum_circuit (QuantumCircuit_init 2 1) = initial_state"
  using initial_state_two_qubits [of "QuantumCircuit_init 2 1"]
  by (simp add: QuantumCircuit_init_def)

text \<open>
  C7 as stated fails: for a circuit declared with one qubit the simulation starts
  from four amplitudes, not \<open>2\<^sup>1\<close>, and for a circuit declared with no qubit it
  returns the same vector where the specification has InvalidQubitCount.
\<close>

theorem initialize_state_counterexample:
  "simulate_quantum_circuit (QuantumCircuit_init 1 0) = [1, 0, 0, 0]
   \<and> length (simulate_quantum_circuit (QuantumCircuit_init 1 0)) \<noteq> 2 ^ 1
   \<and> spec_initialize_state 1 \<noteq> Inr (simulate_quantum_circuit (QuantumCircuit_init 1 0))
   \<and> spec_initialize_state 0 = Inl InvalidQubitCount
   \<and> simulate_quantum_circuit (QuantumCircuit_init 0 0) = [1, 0, 0, 0]"
  by (simp add: sim_defs gate_test_defs circuit_defs step_defs spec_initialize_state_def)

section \<open>Qubit indices\<close>

text \<open>
  C8 (as the code has it). The simulation never reads the qubit indices of an
  instruction and has no failure: it returns four amplitudes for every circuit, and
  two circuits with the same sequence of operation names give the same state, whatever
  qubits their instructions refer to.
\<close>

theorem simulation_ignores_qubit_indices:
  "length (simulate_quantum_circuit qc) = 4
   \<and> (map op_name (data qc) = map op_name (data qc')
      \<longrightarrow> simulate_quantum_circuit qc = simulate_quantum_circuit qc')"
proof (intro conjI impI)
  show "length (simulate_quantum_circuit qc) = 4" by (rule length_simulate)
next
  assume "map op_name (data qc) = map op_name (data qc')"
  then show "simulate_quantum_circuit qc = simulate_quantum_circuit qc'"
    by (rule simulate_op_names)
qed

text \<open>H on qubit 5 of six, and H on qubit 1 of two.\<close>

theorem simulation_ignores_qubit_indices_witness:
  "map op_name (data (qc_h (QuantumCircuit_init 6 0) 5)) = map op_name (data (qc_h (QuantumCircuit_init 2 0) 1))
   \<and> simulate_quantum_circuit (qc_h (QuantumCircuit_init 6 0) 5)
     = simulate_quantum_circuit (qc_h (QuantumCircuit_init 2 0) 1)"
proof -
  have m: "map op_name (data (qc_h (QuantumCircuit_init 6 0) 5)) = map op_name (data (qc_h (QuantumCircuit_init 2 0) 1))"
    by (simp add: circuit_defs)
  show ?thesis
    using m simulation_ignores_qubit_indices
      [of "qc_h (QuantumCircuit_init 6 0) 5" "qc_h (QuantumCircuit_init 2 0) 1"]
    by blast
qed

text \<open>
  C8 as stated fails: the state has \<open>2\<^sup>2\<close> amplitudes, an H instruction on
  qubit 5 is outside \<open>[0, 2)\<close>, and the simulation applies the H step to the state
  instead of failing.
\<close>

theorem qubit_index_out_of_range_counterexample:
  "length initial_state = 2 ^ 2 \<and> \<not> (5::nat) < 2
   \<and> simulate_quantum_circuit (qc_h (QuantumCircuit_init 6 0) 5) = [1 / sqrt 2, 1 / sqrt 2, 0, 0]
   \<and> simulate_quantum_circuit (qc_h (QuantumCircuit_init 6 0) 5) \<noteq> initial_state"
  by (simp add: sim_defs gate_test_defs circuit_defs step_defs)

end
